theory Spec2Isabelle
  imports Main "HOL-Library.Word"
begin

unbundle bit_operations_syntax

section \<open>Go types as the reflect package shows them\<close>

text \<open>
  The builder of \<^verbatim>\<open>schema/table.go\<close> inspects record types through reflection. A type is
  modelled by the fragment of Go's types the builder distinguishes: the basic types it
  tests for, the three library struct types \<^verbatim>\<open>time.Time\<close>, \<^verbatim>\<open>sql.NullTime\<close> and
  \<^verbatim>\<open>sql.NullInt64\<close>, declared struct types (by name), pointers and slices.
\<close>

datatype Kind = KBool | KInt | KInt64 | KString | KStruct | KPtr | KSlice

datatype gotype =
    TBool | TInt | TInt64 | TString
  | TTime | TNullTime | TNullInt64
  | TStruct string
  | TPtr gotype
  | TSlice gotype

fun Kind_of :: "gotype \<Rightarrow> Kind" where
  "Kind_of TBool = KBool"
| "Kind_of TInt = KInt"
| "Kind_of TInt64 = KInt64"
| "Kind_of TString = KString"
| "Kind_of TTime = KStruct"
| "Kind_of TNullTime = KStruct"
| "Kind_of TNullInt64 = KStruct"
| "Kind_of (TStruct n) = KStruct"
| "Kind_of (TPtr t) = KPtr"
| "Kind_of (TSlice t) = KSlice"

text \<open>\<^verbatim>\<open>Type.Name()\<close>: the name of a defined type, empty for pointers and slices.\<close>

fun type_Name :: "gotype \<Rightarrow> string" where
  "type_Name TBool = ''bool''"
| "type_Name TInt = ''int''"
| "type_Name TInt64 = ''int64''"
| "type_Name TString = ''string''"
| "type_Name TTime = ''Time''"
| "type_Name TNullTime = ''NullTime''"
| "type_Name TNullInt64 = ''NullInt64''"
| "type_Name (TStruct n) = n"
| "type_Name (TPtr t) = []"
| "type_Name (TSlice t) = []"

text \<open>\<^verbatim>\<open>indirectType\<close> strips one pointer, as its uses in the file require.\<close>

fun indirectType :: "gotype \<Rightarrow> gotype" where
  "indirectType (TPtr t) = t"
| "indirectType t = t"

section \<open>Tags, struct fields, Field, Relation and Table\<close>

text \<open>
  A tag is kept in its parsed form (\<^verbatim>\<open>tagparser.Parse\<close> is outside the file): the name and
  the option bag. A struct field carries both the raw \<^verbatim>\<open>bun\<close> tag, which \<^verbatim>\<open>addFields\<close>
  compares with \<^verbatim>\<open>"-"\<close>, and the parsed tag.
\<close>

record Tag =
  tag_Name :: string
  tag_Options :: "(string \<times> string) list"

definition Option_of :: "Tag \<Rightarrow> string \<Rightarrow> string option" where
  "Option_of tag k = map_of (tag_Options tag) k"

definition HasOption :: "Tag \<Rightarrow> string \<Rightarrow> bool" where
  "HasOption tag k = (Option_of tag k \<noteq> None)"

record StructField =
  sf_Name :: string
  sf_PkgPath :: string
  sf_Type :: gotype
  sf_RawTag :: string
  sf_Tag :: Tag
  sf_Index :: "nat list"
  sf_Anonymous :: bool

text \<open>
  Fields are heap objects: the tables hold pointers to them, \<^verbatim>\<open>removeField\<close> compares
  pointers, and \<^verbatim>\<open>markAsPK\<close> writes through a pointer that several lists share. An
  address is an index into the heap, a list of Field values; allocation appends.
\<close>

type_synonym addr = nat

record Field =
  f_StructField :: StructField
  f_Tag :: Tag
  f_Type :: gotype
  f_Index :: "nat list"
  f_Name :: string
  f_GoName :: string
  f_SQLName :: string
  f_IsPK :: bool
  f_AutoIncrement :: bool
  f_NotNull :: bool
  f_NullZero :: bool
  f_SQLDefault :: string
  f_OnDelete :: string
  f_OnUpdate :: string
  f_UserSQLType :: string
  f_DiscoveredSQLType :: string
  f_CreateTableSQLType :: string

datatype RelationType =
  HasOneRelation | BelongsToRelation | HasManyRelation | ManyToManyRelation

text \<open>
  A Relation points to its tables; a table is identified by the type it was built for
  (the registry keeps one table per type).
\<close>

record Relation =
  r_Type :: RelationType
  r_Field :: addr
  r_JoinTable :: gotype
  r_BaseFields :: "addr list"
  r_JoinFields :: "addr list"
  r_PolymorphicField :: "addr option"
  r_PolymorphicValue :: string
  r_M2MTable :: "gotype option"
  r_M2MBaseFields :: "addr list"
  r_M2MJoinFields :: "addr list"

text \<open>The closure that \<^verbatim>\<open>softDeleteFieldUpdater\<close> selects, by the branch that returns it.\<close>

datatype SoftDeleteUpdater =
    SetTime | SetNullTime | SetNullInt64 | SetInt64 | SetPtrTime | SetPtrInt64
  | SetFallback

type_synonym Flag = "64 word"

record Table =
  t_Type :: gotype
  t_TypeName :: string
  t_ModelName :: string
  t_Name :: string
  t_SQLName :: string
  t_SQLNameForSelects :: string
  t_Alias :: string
  t_Fields :: "addr list"
  t_PKs :: "addr list"
  t_DataFields :: "addr list"
  t_FieldMap :: "string \<rightharpoonup> addr"
  t_Relations :: "string \<rightharpoonup> Relation"
  t_Unique :: "string \<rightharpoonup> addr list"
  t_SoftDeleteField :: "addr option"
  t_UpdateSoftDeleteField :: "SoftDeleteUpdater option"
  t_allFields :: "addr list"
  t_skippedFields :: "addr list"
  t_flags :: Flag

datatype HookType =
    beforeScanHookType | afterScanHookType | afterSelectHookType
  | beforeInsertHookType | afterInsertHookType
  | beforeUpdateHookType | afterUpdateHookType
  | beforeDeleteHookType | afterDeleteHookType

text \<open>
  What the file takes from outside: the dialect's identifier quoting and its
  \<^verbatim>\<open>OnField\<close> callback, SQL type detection, the naming helpers of package
  \<^verbatim>\<open>internal\<close>, the table name inflector (a package variable), and reflection
  (\<^verbatim>\<open>Implements\<close>, and \<^verbatim>\<open>NumField\<close>/\<^verbatim>\<open>Field\<close> as the list of a struct type's fields).
  Modelled from the spec: \<^verbatim>\<open>OnField\<close>, whose code is missing, is the callback that "may
  further populate or adjust CreateTableSQLType"; it is given as the function that
  yields the \<^verbatim>\<open>CreateTableSQLType\<close> it leaves in the field.
\<close>

record env =
  e_quoteIdent :: "string \<Rightarrow> string"
  e_Detect :: "gotype \<Rightarrow> string"
  e_OnField :: "Field \<Rightarrow> string"
  e_Underscore :: "string \<Rightarrow> string"
  e_ToExported :: "string \<Rightarrow> string"
  e_tableNameInflector :: "string \<Rightarrow> string"
  e_Implements :: "gotype \<Rightarrow> HookType \<Rightarrow> bool"
  e_Fields :: "gotype \<Rightarrow> StructField list"

section \<open>Hook flags and newTable\<close>

text \<open>
  The constants are \<^verbatim>\<open>1 << iota\<close>. Type \<^verbatim>\<open>internal.Flag\<close> is outside the file; it is a
  64-bit set of bits whose \<^verbatim>\<open>Set\<close> is bitwise or and whose \<^verbatim>\<open>Has\<close> tests that the bits
  of the argument are all present.
\<close>

definition beforeScanHookFlag :: Flag where "beforeScanHookFlag = push_bit 0 1"
definition afterScanHookFlag :: Flag where "afterScanHookFlag = push_bit 1 1"
definition afterSelectHookFlag :: Flag where "afterSelectHookFlag = push_bit 2 1"
definition beforeInsertHookFlag :: Flag where "beforeInsertHookFlag = push_bit 3 1"
definition afterInsertHookFlag :: Flag where "afterInsertHookFlag = push_bit 4 1"
definition beforeUpdateHookFlag :: Flag where "beforeUpdateHookFlag = push_bit 5 1"
definition afterUpdateHookFlag :: Flag where "afterUpdateHookFlag = push_bit 6 1"
definition beforeDeleteHookFlag :: Flag where "beforeDeleteHookFlag = push_bit 7 1"
definition afterDeleteHookFlag :: Flag where "afterDeleteHookFlag = push_bit 8 1"

definition Flag_Has :: "Flag \<Rightarrow> Flag \<Rightarrow> bool" where
  "Flag_Has flag other = (flag AND other = other)"

definition Flag_Set :: "Flag \<Rightarrow> Flag \<Rightarrow> Flag" where
  "Flag_Set flag other = flag OR other"

definition new_Table :: Table where
  "new_Table = \<lparr> t_Type = TBool, t_TypeName = [], t_ModelName = [], t_Name = [],
     t_SQLName = [], t_SQLNameForSelects = [], t_Alias = [],
     t_Fields = [], t_PKs = [], t_DataFields = [],
     t_FieldMap = Map.empty, t_Relations = Map.empty, t_Unique = Map.empty,
     t_SoftDeleteField = None, t_UpdateSoftDeleteField = None,
     t_allFields = [], t_skippedFields = [], t_flags = 0 \<rparr>"

definition setName :: "env \<Rightarrow> string \<Rightarrow> Table \<Rightarrow> Table" where
  "setName e name t =
     (let t1 = t\<lparr> t_Name := name, t_SQLName := e_quoteIdent e name,
                  t_SQLNameForSelects := e_quoteIdent e name \<rparr>
      in if t_Alias t1 = [] then t1\<lparr> t_Alias := e_quoteIdent e name \<rparr> else t1)"

definition hooks :: "(HookType \<times> Flag) list" where
  "hooks =
     [(beforeScanHookType, beforeScanHookFlag),
      (afterScanHookType, afterScanHookFlag),
      (afterSelectHookType, afterSelectHookFlag),
      (beforeInsertHookType, beforeInsertHookFlag),
      (afterInsertHookType, afterInsertHookFlag),
      (beforeUpdateHookType, beforeUpdateHookFlag),
      (afterUpdateHookType, afterUpdateHookFlag),
      (beforeDeleteHookType, beforeDeleteHookFlag),
      (afterDeleteHookType, afterDeleteHookFlag)]"

text \<open>The loop \<^verbatim>\<open>for _, hook := range hooks\<close> of \<^verbatim>\<open>newTable\<close>.\<close>

fun set_hook_flags :: "env \<Rightarrow> gotype \<Rightarrow> (HookType \<times> Flag) list \<Rightarrow> Flag \<Rightarrow> Flag" where
  "set_hook_flags e typ [] flags = flags"
| "set_hook_flags e typ ((htyp, flag) # hs) flags =
     set_hook_flags e typ hs
       (if e_Implements e typ htyp then Flag_Set flags flag else flags)"

definition newTable :: "env \<Rightarrow> gotype \<Rightarrow> Table" where
  "newTable e typ =
     (let t0 = new_Table\<lparr> t_Type := typ,
                 t_TypeName := e_ToExported e (type_Name typ),
                 t_ModelName := e_Underscore e (type_Name typ) \<rparr>;
          tableName = e_tableNameInflector e (t_ModelName t0);
          t1 = setName e tableName t0;
          t2 = t1\<lparr> t_Alias := e_quoteIdent e (t_ModelName t1) \<rparr>
      in t2\<lparr> t_flags := set_hook_flags e (TPtr (t_Type t2)) hooks (t_flags t2) \<rparr>)"

definition HasBeforeScanHook :: "Table \<Rightarrow> bool" where
  "HasBeforeScanHook t = Flag_Has (t_flags t) beforeScanHookFlag"
definition HasAfterScanHook :: "Table \<Rightarrow> bool" where
  "HasAfterScanHook t = Flag_Has (t_flags t) afterScanHookFlag"
definition HasAfterSelectHook :: "Table \<Rightarrow> bool" where
  "HasAfterSelectHook t = Flag_Has (t_flags t) afterSelectHookFlag"
definition HasBeforeInsertHook :: "Table \<Rightarrow> bool" where
  "HasBeforeInsertHook t = Flag_Has (t_flags t) afterInsertHookFlag"
definition HasAfterInsertHook :: "Table \<Rightarrow> bool" where
  "HasAfterInsertHook t = Flag_Has (t_flags t) afterInsertHookFlag"
definition HasBeforeUpdateHook :: "Table \<Rightarrow> bool" where
  "HasBeforeUpdateHook t = Flag_Has (t_flags t) beforeUpdateHookFlag"
definition HasAfterUpdateHook :: "Table \<Rightarrow> bool" where
  "HasAfterUpdateHook t = Flag_Has (t_flags t) afterUpdateHookFlag"
definition HasBeforeDeleteHook :: "Table \<Rightarrow> bool" where
  "HasBeforeDeleteHook t = Flag_Has (t_flags t) beforeDeleteHookFlag"
definition HasAfterDeleteHook :: "Table \<Rightarrow> bool" where
  "HasAfterDeleteHook t = Flag_Has (t_flags t) afterDeleteHookFlag"

section \<open>Construction state, errors and the registry\<close>

text \<open>
  A table is built in place while Field objects are allocated: the state of a
  construction is the heap together with the table under construction.
\<close>

record cstate =
  heap :: "Field list"
  tbl :: Table

text \<open>The panics of the file, and the one error it returns (\<^verbatim>\<open>CheckPKs\<close>).\<close>

datatype error =
    ErrNoPrimaryKeys string
  | ErrMustHaveColumn RelationType string string
  | ErrUnknownRelation string string
  | ErrRequiresSlice RelationType string
  | ErrParseJoin string
  | ErrAlreadyHas string
  | ErrMustHaveM2MOption string
  | ErrNoM2MTable string
  | ErrM2MMustHaveField string string
  | ErrMustHavePolymorphicColumn string string
  | ErrNoTable gotype
  | ErrTypeAssertion

text \<open>
  Modelled from the spec: the Table Registry, which is outside the file, "must provide
  Ref(type) -> TableDescriptor (idempotent, lazily-constructing, cycle-safe for
  self-referential types) and ByName(name) -> TableDescriptor|absent". It is given as
  the list of the tables it holds, one per type, each built through phase 1 at least.
  The table under construction is registered as well: \<open>tables_with\<close> puts its current
  state first. A type the list does not hold has no table here, which \<open>Ref\<close> reports
  as \<open>ErrNoTable\<close>.
\<close>

type_synonym Tables = "(gotype \<times> Table) list"

definition tables_with :: "Tables \<Rightarrow> Table \<Rightarrow> Tables" where
  "tables_with reg t = (t_Type t, t) # reg"

definition Tables_Ref :: "Tables \<Rightarrow> gotype \<Rightarrow> error + Table" where
  "Tables_Ref tabs typ =
     (case map_of tabs typ of None \<Rightarrow> Inl (ErrNoTable typ) | Some t \<Rightarrow> Inr t)"

definition Tables_ByName :: "Tables \<Rightarrow> string \<Rightarrow> Table option" where
  "Tables_ByName tabs name = map_option snd (find (\<lambda>p. t_Name (snd p) = name) tabs)"

section \<open>Small helpers of the file\<close>

definition CheckPKs :: "Table \<Rightarrow> error option" where
  "CheckPKs t = (if length (t_PKs t) = 0 then Some (ErrNoPrimaryKeys (t_TypeName t)) else None)"

text \<open>\<^verbatim>\<open>removeField\<close> on a slice: the first element equal to the pointer is cut out.\<close>

fun removeField :: "addr list \<Rightarrow> addr \<Rightarrow> addr list" where
  "removeField [] field = []"
| "removeField (f # flds) field =
     (if f = field then flds else f # removeField flds field)"

definition Table_addField :: "addr \<Rightarrow> cstate \<Rightarrow> cstate" where
  "Table_addField field s =
     (let t = tbl s;
          t1 = t\<lparr> t_Fields := t_Fields t @ [field] \<rparr>;
          t2 = (if f_IsPK (heap s ! field)
                then t1\<lparr> t_PKs := t_PKs t1 @ [field] \<rparr>
                else t1\<lparr> t_DataFields := t_DataFields t1 @ [field] \<rparr>)
      in s\<lparr> tbl := t2\<lparr> t_FieldMap := (t_FieldMap t2)(f_Name (heap s ! field) \<mapsto> field) \<rparr> \<rparr>)"

definition Table_removeField :: "addr \<Rightarrow> cstate \<Rightarrow> cstate" where
  "Table_removeField field s =
     (let t = tbl s;
          t1 = t\<lparr> t_Fields := removeField (t_Fields t) field \<rparr>;
          t2 = (if f_IsPK (heap s ! field)
                then t1\<lparr> t_PKs := removeField (t_PKs t1) field \<rparr>
                else t1\<lparr> t_DataFields := removeField (t_DataFields t1) field \<rparr>)
      in s\<lparr> tbl := t2\<lparr> t_FieldMap := (t_FieldMap t2)(f_Name (heap s ! field) := None) \<rparr> \<rparr>)"

text \<open>The lock of \<^verbatim>\<open>fieldWithLock\<close> has no effect on a sequential run.\<close>

definition fieldWithLock :: "Table \<Rightarrow> string \<Rightarrow> addr option" where
  "fieldWithLock t name = t_FieldMap t name"

definition HasField :: "Table \<Rightarrow> string \<Rightarrow> bool" where
  "HasField t name = (t_FieldMap t name \<noteq> None)"

definition fieldByGoName :: "Field list \<Rightarrow> Table \<Rightarrow> string \<Rightarrow> addr option" where
  "fieldByGoName h t name = find (\<lambda>f. f_GoName (h ! f) = name) (t_allFields t)"

definition quoteTableName :: "env \<Rightarrow> string \<Rightarrow> string" where
  "quoteTableName e s =
     (if CHR ''?'' \<in> set s \<or> CHR ''('' \<in> set s \<or> CHR '')'' \<in> set s
      then s else e_quoteIdent e s)"

definition appendNew :: "nat list \<Rightarrow> nat list \<Rightarrow> nat list" where
  "appendNew dst src = dst @ src"

definition indexEqual :: "nat list \<Rightarrow> nat list \<Rightarrow> bool" where
  "indexEqual ind1 ind2 = (ind1 = ind2)"

text \<open>\<^verbatim>\<open>strings.Split\<close> with a separator of one byte.\<close>

fun Split :: "string \<Rightarrow> char \<Rightarrow> string list" where
  "Split [] sep = [[]]"
| "Split (c # cs) sep =
     (if c = sep then [] # Split cs sep
      else (case Split cs sep of [] \<Rightarrow> [[c]] | w # ws \<Rightarrow> (c # w) # ws))"

text \<open>\<^verbatim>\<open>strings.TrimSpace\<close> on ASCII text: tab, line feed, vertical tab, form feed,
  carriage return and space are white space.\<close>

definition isSpace :: "char \<Rightarrow> bool" where
  "isSpace c = (c \<in> {CHR 0x09, CHR 0x0A, CHR 0x0B, CHR 0x0C, CHR 0x0D, CHR 0x20})"

definition TrimSpace :: "string \<Rightarrow> string" where
  "TrimSpace s = rev (dropWhile isSpace (rev (dropWhile isSpace s)))"

text \<open>The loop of \<^verbatim>\<open>parseRelationJoin\<close> over the comma-separated parts.\<close>

fun parseJoinParts :: "string \<Rightarrow> string list \<Rightarrow> error + (string \<times> string) list" where
  "parseJoinParts join [] = Inr []"
| "parseJoinParts join (s # ss) =
     (case Split (TrimSpace s) (CHR ''='') of
        [b, j] \<Rightarrow>
          (case parseJoinParts join ss of
             Inl err \<Rightarrow> Inl err
           | Inr ps \<Rightarrow> Inr ((b, j) # ps))
      | _ \<Rightarrow> Inl (ErrParseJoin join))"

definition parseRelationJoin :: "string \<Rightarrow> error + (string list \<times> string list)" where
  "parseRelationJoin join =
     (case parseJoinParts join (Split join (CHR '','')) of
        Inl err \<Rightarrow> Inl err
      | Inr ps \<Rightarrow> Inr (map fst ps, map snd ps))"

text \<open>
  Modelled from the spec: \<^verbatim>\<open>markAsPK\<close> (outside the file) is what "mark as primary key"
  names; the model sets the flag \<open>IsPK\<close>.
\<close>

definition markAsPK :: "Field \<Rightarrow> Field" where
  "markAsPK f = f\<lparr> f_IsPK := True \<rparr>"

text \<open>\<^verbatim>\<open>f.Clone()\<close> copies the Field into a new object: the value is the same, the
  address is new.\<close>

definition alloc :: "Field \<Rightarrow> cstate \<Rightarrow> addr \<times> cstate" where
  "alloc f s = (length (heap s), s\<lparr> heap := heap s @ [f] \<rparr>)"

section \<open>Phase 1: field discovery\<close>

text \<open>
  The warnings of \<^verbatim>\<open>processBaseModelField\<close> and \<^verbatim>\<open>newField\<close> go to a logger and change
  nothing of the table; they are left out, and with them \<^verbatim>\<open>isKnownTableOption\<close> and
  \<^verbatim>\<open>isKnownFieldOption\<close>, which only they use.
\<close>

definition processBaseModelField :: "env \<Rightarrow> StructField \<Rightarrow> cstate \<Rightarrow> cstate" where
  "processBaseModelField e f s =
     (let tag = sf_Tag f;
          t = tbl s;
          t1 = (if tag_Name tag = ''_'' then setName e [] t
                else if tag_Name tag \<noteq> [] then setName e (tag_Name tag) t
                else t);
          t2 = (case Option_of tag ''select'' of
                  Some sel \<Rightarrow> t1\<lparr> t_SQLNameForSelects := quoteTableName e sel \<rparr>
                | None \<Rightarrow> t1);
          t3 = (case Option_of tag ''alias'' of
                  Some v \<Rightarrow> t2\<lparr> t_Alias := e_quoteIdent e v \<rparr>
                | None \<Rightarrow> t2)
      in s\<lparr> tbl := t3 \<rparr>)"

text \<open>
  \<^verbatim>\<open>softDeleteFieldUpdater\<close> switches on \<^verbatim>\<open>field.Type\<close>, then on its kind, then on the
  element type of a pointer; the result names the closure returned.
\<close>

definition softDeleteFieldUpdater :: "Field \<Rightarrow> SoftDeleteUpdater" where
  "softDeleteFieldUpdater field =
     (if f_Type field = TTime then SetTime
      else if f_Type field = TNullTime then SetNullTime
      else if f_Type field = TNullInt64 then SetNullInt64
      else if Kind_of (f_Type field) = KInt64 then SetInt64
      else (case f_Type field of
              TPtr typ \<Rightarrow>
                (if typ = TTime then SetPtrTime
                 else if Kind_of typ = KInt64 then SetPtrInt64
                 else SetFallback)
            | _ \<Rightarrow> SetFallback))"

text \<open>The loop over \<^verbatim>\<open>strings.Split(v, ",")\<close> that files a field under its unique groups.\<close>

fun add_Unique :: "string list \<Rightarrow> addr \<Rightarrow> (string \<rightharpoonup> addr list) \<Rightarrow> (string \<rightharpoonup> addr list)" where
  "add_Unique [] field u = u"
| "add_Unique (uniqueName # names) field u =
     add_Unique names field
       (u(uniqueName \<mapsto> (case u uniqueName of None \<Rightarrow> [] | Some fs \<Rightarrow> fs) @ [field]))"

text \<open>
  The Field value \<^verbatim>\<open>newField\<close> assembles for a struct field, a resolved column name
  and an access path, up to the call of the dialect's \<^verbatim>\<open>OnField\<close> and the defaults of
  the SQL types. The bound behaviours \<^verbatim>\<open>Append\<close>, \<^verbatim>\<open>Scan\<close> and \<^verbatim>\<open>IsZero\<close> belong to
  the scanner and are not part of the model.
\<close>

definition build_Field :: "env \<Rightarrow> StructField \<Rightarrow> string \<Rightarrow> nat list \<Rightarrow> Field" where
  "build_Field e f sqlName index =
     (let tag = sf_Tag f;
          field0 = \<lparr> f_StructField = f, f_Tag = tag, f_Type = indirectType (sf_Type f),
                     f_Index = index, f_Name = sqlName, f_GoName = sf_Name f,
                     f_SQLName = e_quoteIdent e sqlName,
                     f_IsPK = False,
                     f_AutoIncrement = HasOption tag ''autoincrement'',
                     f_NotNull = HasOption tag ''notnull'',
                     f_NullZero = HasOption tag ''nullzero'',
                     f_SQLDefault = [], f_OnDelete = [], f_OnUpdate = [],
                     f_UserSQLType = [], f_DiscoveredSQLType = [],
                     f_CreateTableSQLType = [] \<rparr>;
          field1 = (if HasOption tag ''pk'' then markAsPK field0 else field0);
          field2 = (case Option_of tag ''default'' of
                      Some v \<Rightarrow> field1\<lparr> f_SQLDefault := v \<rparr> | None \<Rightarrow> field1);
          field3 = (case Option_of tag ''on_delete'' of
                      Some v \<Rightarrow> field2\<lparr> f_OnDelete := v \<rparr> | None \<Rightarrow> field2);
          field4 = (case Option_of tag ''on_update'' of
                      Some v \<Rightarrow> field3\<lparr> f_OnUpdate := v \<rparr> | None \<Rightarrow> field3);
          field5 = (case Option_of tag ''type'' of
                      Some v \<Rightarrow> field4\<lparr> f_UserSQLType := v \<rparr> | None \<Rightarrow> field4);
          field6 = field5\<lparr> f_DiscoveredSQLType := e_Detect e (f_Type field5) \<rparr>;
          field7 = field6\<lparr> f_CreateTableSQLType := e_OnField e field6 \<rparr>;
          field8 = (if f_UserSQLType field7 = []
                    then field7\<lparr> f_UserSQLType := f_DiscoveredSQLType field7 \<rparr>
                    else field7)
      in if f_CreateTableSQLType field8 = []
         then field8\<lparr> f_CreateTableSQLType := f_UserSQLType field8 \<rparr>
         else field8)"

text \<open>
  \<^verbatim>\<open>newField\<close>: the result is the pointer returned (\<open>None\<close> for \<^verbatim>\<open>nil\<close>) and the state.
  It is written in two parts. \<open>newField_create\<close> is the second half, from the
  allocation of the Field on (lines 326 to 400); the Field is allocated with the value
  it has when \<^verbatim>\<open>newField\<close> returns. \<open>column_name\<close> is the column name that lines 298
  and 313 to 316 resolve.
\<close>

definition column_name :: "env \<Rightarrow> StructField \<Rightarrow> string" where
  "column_name e f =
     (let tag = sf_Tag f;
          sqlName = e_Underscore e (sf_Name f);
          skip = (tag_Name tag = ''-'')
      in if \<not> skip \<and> tag_Name tag \<noteq> [] then tag_Name tag else sqlName)"

definition newField_create ::
  "env \<Rightarrow> StructField \<Rightarrow> string \<Rightarrow> nat list \<Rightarrow> cstate \<Rightarrow> addr option \<times> cstate"
where
  "newField_create e f sqlName index s1 =
     (let tag = sf_Tag f;
          skip = (tag_Name tag = ''-'');
          soft = (\<not> skip \<and> HasOption tag ''soft_delete'');
          built = build_Field e f sqlName index;
          fv = (if soft then built\<lparr> f_NullZero := True \<rparr> else built);
          (field, s2) = alloc fv s1;
          t2 = tbl s2;
          t3 = (case Option_of tag ''unique'' of
                  Some v \<Rightarrow> t2\<lparr> t_Unique := add_Unique (Split v (CHR '','')) field (t_Unique t2) \<rparr>
                | None \<Rightarrow> t2);
          t4 = (case Option_of tag ''alias'' of
                  Some v \<Rightarrow> t3\<lparr> t_FieldMap := (t_FieldMap t3)(v \<mapsto> field) \<rparr>
                | None \<Rightarrow> t3);
          t5 = t4\<lparr> t_allFields := t_allFields t4 @ [field] \<rparr>
      in if skip
         then (None, s2\<lparr> tbl := t5\<lparr> t_skippedFields := t_skippedFields t5 @ [field],
                                    t_FieldMap := (t_FieldMap t5)(f_Name fv \<mapsto> field) \<rparr> \<rparr>)
         else if soft
         then (Some field, s2\<lparr> tbl := t5\<lparr> t_SoftDeleteField := Some field,
                  t_UpdateSoftDeleteField := Some (softDeleteFieldUpdater fv) \<rparr> \<rparr>)
         else (Some field, s2\<lparr> tbl := t5 \<rparr>))"

definition newField :: "env \<Rightarrow> StructField \<Rightarrow> nat list \<Rightarrow> cstate \<Rightarrow> addr option \<times> cstate" where
  "newField e f index0 s0 =
     (if sf_PkgPath f \<noteq> [] then (None, s0)
      else
        let sqlName = column_name e f;
            index = index0 @ sf_Index f
        in case fieldWithLock (tbl s0) sqlName of
             Some old \<Rightarrow>
               (if indexEqual (f_Index (heap s0 ! old)) index then (Some old, s0)
                else newField_create e f sqlName index (Table_removeField old s0))
           | None \<Rightarrow> newField_create e f sqlName index s0)"

text \<open>Lines 252 to 255 of \<^verbatim>\<open>addFields\<close>: a declared field is built and, unless
  \<^verbatim>\<open>newField\<close> gave \<^verbatim>\<open>nil\<close>, added to the table.\<close>

definition addFields_field :: "env \<Rightarrow> StructField \<Rightarrow> nat list \<Rightarrow> cstate \<Rightarrow> cstate" where
  "addFields_field e f index s =
     (case newField e f index s of
        (None, s1) \<Rightarrow> s1
      | (Some field, s1) \<Rightarrow> Table_addField field s1)"

text \<open>\<^verbatim>\<open>typ.Field(i)\<close> for \<^verbatim>\<open>i\<close> below \<^verbatim>\<open>typ.NumField()\<close>: field \<^verbatim>\<open>i\<close> has index \<^verbatim>\<open>[i]\<close>.\<close>

definition struct_fields :: "env \<Rightarrow> gotype \<Rightarrow> StructField list" where
  "struct_fields e typ =
     map (\<lambda>(i, f). f\<lparr> sf_Index := [i] \<rparr>) (enumerate 0 (e_Fields e typ))"

text \<open>The table adopts the naming identity of an embedded table tagged \<^verbatim>\<open>inherit\<close>.\<close>

definition inherit_from :: "Table \<Rightarrow> Table \<Rightarrow> Table" where
  "inherit_from embeddedTable t =
     t\<lparr> t_TypeName := t_TypeName embeddedTable,
        t_SQLName := t_SQLName embeddedTable,
        t_SQLNameForSelects := t_SQLNameForSelects embeddedTable,
        t_Alias := t_Alias embeddedTable,
        t_ModelName := t_ModelName embeddedTable \<rparr>"

text \<open>
  \<^verbatim>\<open>addFields\<close> recurses into embedded struct types, and a struct may embed a pointer to
  itself: the recursion has no bound in the code. The first argument bounds the depth
  of embedding; \<open>None\<close> is a walk that did not end within it. The list is what is left
  of the fields of the type being walked.
\<close>

fun addFields ::
  "nat \<Rightarrow> env \<Rightarrow> Tables \<Rightarrow> StructField list \<Rightarrow> nat list \<Rightarrow> cstate \<Rightarrow> (error + cstate) option"
where
  "addFields 0 e reg fs baseIndex s = None"
| "addFields (Suc n) e reg [] baseIndex s = Some (Inr s)"
| "addFields (Suc n) e reg (f # fs) baseIndex s =
     (if sf_Anonymous f then
        (if sf_RawTag f = ''-'' then addFields (Suc n) e reg fs baseIndex s
         else if sf_Name f = ''BaseModel'' then
           addFields (Suc n) e reg fs baseIndex
             (if length baseIndex = 0 then processBaseModelField e f s else s)
         else if Kind_of (indirectType (sf_Type f)) \<noteq> KStruct then
           addFields (Suc n) e reg fs baseIndex s
         else
           (case addFields n e reg (struct_fields e (indirectType (sf_Type f)))
                   (baseIndex @ sf_Index f) s of
              None \<Rightarrow> None
            | Some (Inl err) \<Rightarrow> Some (Inl err)
            | Some (Inr s1) \<Rightarrow>
                (if HasOption (sf_Tag f) ''inherit'' then
                   (case Tables_Ref (tables_with reg (tbl s1)) (indirectType (sf_Type f)) of
                      Inl err \<Rightarrow> Some (Inl err)
                    | Inr embeddedTable \<Rightarrow>
                        addFields (Suc n) e reg fs baseIndex
                          (s1\<lparr> tbl := inherit_from embeddedTable (tbl s1) \<rparr>))
                 else addFields (Suc n) e reg fs baseIndex s1)))
      else addFields (Suc n) e reg fs baseIndex (addFields_field e f baseIndex s))"

text \<open>The loop of \<^verbatim>\<open>initFields\<close> over the conventional key names, left at the first hit.\<close>

fun pk_fallback :: "string list \<Rightarrow> cstate \<Rightarrow> cstate" where
  "pk_fallback [] s = s"
| "pk_fallback (name # names) s =
     (case t_FieldMap (tbl s) name of
        Some field \<Rightarrow>
          s\<lparr> heap := (heap s)[field := markAsPK (heap s ! field)],
             tbl := (tbl s)\<lparr> t_PKs := [field],
                      t_DataFields := removeField (t_DataFields (tbl s)) field \<rparr> \<rparr>
      | None \<Rightarrow> pk_fallback names s)"

definition initFields :: "nat \<Rightarrow> env \<Rightarrow> Tables \<Rightarrow> cstate \<Rightarrow> (error + cstate) option" where
  "initFields fuel e reg s0 =
     (let s = s0\<lparr> tbl := (tbl s0)\<lparr> t_Fields := [], t_FieldMap := Map.empty \<rparr> \<rparr> in
      case addFields fuel e reg (struct_fields e (t_Type (tbl s))) [] s of
        None \<Rightarrow> None
      | Some (Inl err) \<Rightarrow> Some (Inl err)
      | Some (Inr s1) \<Rightarrow>
          Some (Inr
            (if length (t_PKs (tbl s1)) > 0 then s1
             else
               let s2 = pk_fallback [''id'', ''uuid'', ''pk_'' @ t_ModelName (tbl s1)] s1
               in (case t_PKs (tbl s2) of
                     [pk] \<Rightarrow> s2\<lparr> heap := (heap s2)[pk := (heap s2 ! pk)\<lparr> f_AutoIncrement := True \<rparr>] \<rparr>
                   | _ \<Rightarrow> s2))))"

definition init1 :: "nat \<Rightarrow> env \<Rightarrow> Tables \<Rightarrow> cstate \<Rightarrow> (error + cstate) option" where
  "init1 fuel e reg s = initFields fuel e reg s"

section \<open>The relation resolver\<close>

definition new_Relation :: "RelationType \<Rightarrow> addr \<Rightarrow> Table \<Rightarrow> Relation" where
  "new_Relation typ field joinTable =
     \<lparr> r_Type = typ, r_Field = field, r_JoinTable = t_Type joinTable,
       r_BaseFields = [], r_JoinFields = [],
       r_PolymorphicField = None, r_PolymorphicValue = [],
       r_M2MTable = None, r_M2MBaseFields = [], r_M2MJoinFields = [] \<rparr>"

text \<open>
  The loop over the pairs of an explicit \<^verbatim>\<open>join\<close> tag in \<^verbatim>\<open>hasOneRelation\<close> and
  \<^verbatim>\<open>belongsToRelation\<close>: the base column is looked up in the table, the join column in
  the join table, and a missing column panics. Both panics of the source name the base
  column. \<^verbatim>\<open>parseRelationJoin\<close> returns two slices of one length, so the loop runs over
  their pairs.
\<close>

fun explicit_join ::
  "RelationType \<Rightarrow> Table \<Rightarrow> Table \<Rightarrow> (string \<times> string) list \<Rightarrow> Relation \<Rightarrow> error + Relation"
where
  "explicit_join k t joinTable [] rel = Inr rel"
| "explicit_join k t joinTable ((baseColumn, joinColumn) # cols) rel =
     (case fieldWithLock t baseColumn of
        None \<Rightarrow> Inl (ErrMustHaveColumn k (t_TypeName t) baseColumn)
      | Some f \<Rightarrow>
          (case fieldWithLock joinTable joinColumn of
             None \<Rightarrow> Inl (ErrMustHaveColumn k (t_TypeName t) baseColumn)
           | Some g \<Rightarrow>
               explicit_join k t joinTable cols
                 (rel\<lparr> r_BaseFields := r_BaseFields rel @ [f],
                       r_JoinFields := r_JoinFields rel @ [g] \<rparr>)))"

text \<open>
  The loop of the convention case, which the three functions share word for word but
  for the table searched, the prefix and the panic (lines 513 to 530, 573 to 590 and
  649 to 666): for each primary key the column \<^verbatim>\<open>prefix + pk.Name\<close> is looked up, then
  the column \<^verbatim>\<open>pk.Name\<close>, and the field found is appended; with neither, it panics.
\<close>

fun convention_join ::
  "RelationType \<Rightarrow> Field list \<Rightarrow> Table \<Rightarrow> string \<Rightarrow> addr list \<Rightarrow> addr list \<Rightarrow> error + addr list"
where
  "convention_join k h searched fkPrefix [] found = Inr found"
| "convention_join k h searched fkPrefix (pk # pks) found =
     (let fkName = fkPrefix @ f_Name (h ! pk) in
      case fieldWithLock searched fkName of
        Some fk \<Rightarrow> convention_join k h searched fkPrefix pks (found @ [fk])
      | None \<Rightarrow>
          (case fieldWithLock searched (f_Name (h ! pk)) of
             Some fk \<Rightarrow> convention_join k h searched fkPrefix pks (found @ [fk])
           | None \<Rightarrow> Inl (ErrMustHaveColumn k (t_TypeName searched) fkName)))"

definition hasOneRelation :: "env \<Rightarrow> Field list \<Rightarrow> Tables \<Rightarrow> Table \<Rightarrow> addr \<Rightarrow> error + Relation" where
  "hasOneRelation e h tabs t field =
     (case Tables_Ref tabs (f_Type (h ! field)) of
        Inl err \<Rightarrow> Inl err
      | Inr joinTable \<Rightarrow>
          (case CheckPKs joinTable of
             Some err \<Rightarrow> Inl err
           | None \<Rightarrow>
               (let rel = new_Relation HasOneRelation field joinTable in
                case Option_of (f_Tag (h ! field)) ''join'' of
                  Some join \<Rightarrow>
                    (case parseRelationJoin join of
                       Inl err \<Rightarrow> Inl err
                     | Inr (baseColumns, joinColumns) \<Rightarrow>
                         explicit_join HasOneRelation t joinTable (zip baseColumns joinColumns) rel)
                | None \<Rightarrow>
                    (let fkPrefix = e_Underscore e (f_GoName (h ! field)) @ ''_'' in
                     case convention_join HasOneRelation h t fkPrefix (t_PKs joinTable) [] of
                       Inl err \<Rightarrow> Inl err
                     | Inr fks \<Rightarrow>
                         Inr (rel\<lparr> r_JoinFields := t_PKs joinTable, r_BaseFields := fks \<rparr>)))))"

definition belongsToRelation :: "env \<Rightarrow> Field list \<Rightarrow> Tables \<Rightarrow> Table \<Rightarrow> addr \<Rightarrow> error + Relation" where
  "belongsToRelation e h tabs t field =
     (case CheckPKs t of
        Some err \<Rightarrow> Inl err
      | None \<Rightarrow>
          (case Tables_Ref tabs (f_Type (h ! field)) of
             Inl err \<Rightarrow> Inl err
           | Inr joinTable \<Rightarrow>
               (let rel = new_Relation BelongsToRelation field joinTable in
                case Option_of (f_Tag (h ! field)) ''join'' of
                  Some join \<Rightarrow>
                    (case parseRelationJoin join of
                       Inl err \<Rightarrow> Inl err
                     | Inr (baseColumns, joinColumns) \<Rightarrow>
                         explicit_join BelongsToRelation t joinTable (zip baseColumns joinColumns) rel)
                | None \<Rightarrow>
                    (let fkPrefix = e_Underscore e (t_ModelName t) @ ''_'' in
                     case convention_join BelongsToRelation h joinTable fkPrefix (t_PKs t) [] of
                       Inl err \<Rightarrow> Inl err
                     | Inr fks \<Rightarrow>
                         Inr (rel\<lparr> r_BaseFields := t_PKs t, r_JoinFields := fks \<rparr>)))))"

text \<open>
  The loop over an explicit \<^verbatim>\<open>join\<close> tag in \<^verbatim>\<open>hasManyRelation\<close>: in a polymorphic
  relation a pair whose base column is \<^verbatim>\<open>type\<close> names the polymorphic column and adds
  no fields. The last argument is the polymorphic column so far.
\<close>

fun hasMany_join ::
  "Table \<Rightarrow> Table \<Rightarrow> bool \<Rightarrow> (string \<times> string) list \<Rightarrow> Relation \<Rightarrow> string
     \<Rightarrow> error + (Relation \<times> string)"
where
  "hasMany_join t joinTable isPolymorphic [] rel polymorphicColumn =
     Inr (rel, polymorphicColumn)"
| "hasMany_join t joinTable isPolymorphic ((baseColumn, joinColumn) # cols) rel polymorphicColumn =
     (if isPolymorphic \<and> baseColumn = ''type''
      then hasMany_join t joinTable isPolymorphic cols rel joinColumn
      else
        (case fieldWithLock t baseColumn of
           None \<Rightarrow> Inl (ErrMustHaveColumn HasManyRelation (t_TypeName t) baseColumn)
         | Some f \<Rightarrow>
             (case fieldWithLock joinTable joinColumn of
                None \<Rightarrow> Inl (ErrMustHaveColumn HasManyRelation (t_TypeName t) baseColumn)
              | Some g \<Rightarrow>
                  hasMany_join t joinTable isPolymorphic cols
                    (rel\<lparr> r_BaseFields := r_BaseFields rel @ [f],
                          r_JoinFields := r_JoinFields rel @ [g] \<rparr>)
                    polymorphicColumn)))"

text \<open>Lines 669 to 682: the polymorphic column is resolved once the fields are.\<close>

definition hasMany_polymorphic ::
  "Table \<Rightarrow> Table \<Rightarrow> string option \<Rightarrow> Relation \<times> string \<Rightarrow> error + Relation"
where
  "hasMany_polymorphic t joinTable polymorphic rp =
     (case polymorphic of
        None \<Rightarrow> Inr (fst rp)
      | Some polymorphicValue \<Rightarrow>
          (case fieldWithLock joinTable (snd rp) of
             None \<Rightarrow> Inl (ErrMustHavePolymorphicColumn (t_TypeName joinTable) (snd rp))
           | Some pf \<Rightarrow>
               Inr ((fst rp)\<lparr> r_PolymorphicField := Some pf,
                     r_PolymorphicValue :=
                       (if polymorphicValue = [] then t_ModelName t else polymorphicValue) \<rparr>)))"

definition hasManyRelation :: "env \<Rightarrow> Field list \<Rightarrow> Tables \<Rightarrow> Table \<Rightarrow> addr \<Rightarrow> error + Relation" where
  "hasManyRelation e h tabs t field =
     (case CheckPKs t of
        Some err \<Rightarrow> Inl err
      | None \<Rightarrow>
          (case f_Type (h ! field) of
             TSlice elem \<Rightarrow>
               (case Tables_Ref tabs (indirectType elem) of
                  Inl err \<Rightarrow> Inl err
                | Inr joinTable \<Rightarrow>
                    (let polymorphic = Option_of (f_Tag (h ! field)) ''polymorphic'';
                         isPolymorphic = (polymorphic \<noteq> None);
                         rel = new_Relation HasManyRelation field joinTable
                     in case Option_of (f_Tag (h ! field)) ''join'' of
                          Some join \<Rightarrow>
                            (case parseRelationJoin join of
                               Inl err \<Rightarrow> Inl err
                             | Inr (baseColumns, joinColumns) \<Rightarrow>
                                 (case hasMany_join t joinTable isPolymorphic
                                         (zip baseColumns joinColumns) rel [] of
                                    Inl err \<Rightarrow> Inl err
                                  | Inr rp \<Rightarrow> hasMany_polymorphic t joinTable polymorphic rp))
                        | None \<Rightarrow>
                            (let fkPrefix = e_Underscore e (t_ModelName t) @ ''_'';
                                 polymorphicColumn = (if isPolymorphic then fkPrefix @ ''type'' else [])
                             in case convention_join HasManyRelation h joinTable fkPrefix (t_PKs t) [] of
                                  Inl err \<Rightarrow> Inl err
                                | Inr fks \<Rightarrow>
                                    hasMany_polymorphic t joinTable polymorphic
                                      (rel\<lparr> r_BaseFields := t_PKs t, r_JoinFields := fks \<rparr>,
                                       polymorphicColumn))))
           | _ \<Rightarrow> Inl (ErrRequiresSlice HasManyRelation (f_GoName (h ! field)))))"

definition m2mRelation :: "env \<Rightarrow> Field list \<Rightarrow> Tables \<Rightarrow> Table \<Rightarrow> addr \<Rightarrow> error + Relation" where
  "m2mRelation e h tabs t field =
     (case f_Type (h ! field) of
        TSlice elem \<Rightarrow>
          (case Tables_Ref tabs (indirectType elem) of
             Inl err \<Rightarrow> Inl err
           | Inr joinTable \<Rightarrow>
               (case CheckPKs t of
                  Some err \<Rightarrow> Inl err
                | None \<Rightarrow>
               (case CheckPKs joinTable of
                  Some err \<Rightarrow> Inl err
                | None \<Rightarrow>
               (case Option_of (f_Tag (h ! field)) ''m2m'' of
                  None \<Rightarrow> Inl (ErrMustHaveM2MOption (f_GoName (h ! field)))
                | Some m2mTableName \<Rightarrow>
               (case Tables_ByName tabs m2mTableName of
                  None \<Rightarrow> Inl (ErrNoM2MTable m2mTableName)
                | Some m2mTable \<Rightarrow>
               (case (case Option_of (f_Tag (h ! field)) ''join'' of
                        Some join \<Rightarrow>
                          (case parseRelationJoin join of
                             Inl err \<Rightarrow> Inl err
                           | Inr (left, right) \<Rightarrow>
                               (case (left, right) of
                                  (l # ls, r # rs) \<Rightarrow> Inr (l, r)
                                | _ \<Rightarrow> Inl (ErrParseJoin join)))
                      | None \<Rightarrow> Inr (t_TypeName t, t_TypeName joinTable)) of
                  Inl err \<Rightarrow> Inl err
                | Inr (leftColumn, rightColumn) \<Rightarrow>
               (case fieldByGoName h m2mTable leftColumn of
                  None \<Rightarrow> Inl (ErrM2MMustHaveField (t_TypeName m2mTable) leftColumn)
                | Some leftField \<Rightarrow>
               (case fieldByGoName h m2mTable rightColumn of
                  None \<Rightarrow> Inl (ErrM2MMustHaveField (t_TypeName m2mTable) rightColumn)
                | Some rightField \<Rightarrow>
               (case hasOneRelation e h tabs m2mTable leftField of
                  Inl err \<Rightarrow> Inl err
                | Inr leftRel \<Rightarrow>
               (case hasOneRelation e h tabs m2mTable rightField of
                  Inl err \<Rightarrow> Inl err
                | Inr rightRel \<Rightarrow>
                    Inr ((new_Relation ManyToManyRelation field joinTable)
                          \<lparr> r_M2MTable := Some (t_Type m2mTable),
                            r_BaseFields := r_JoinFields leftRel,
                            r_M2MBaseFields := r_BaseFields leftRel,
                            r_JoinFields := r_JoinFields rightRel,
                            r_M2MJoinFields := r_BaseFields rightRel \<rparr>)))))))))))
      | _ \<Rightarrow> Inl (ErrRequiresSlice ManyToManyRelation (f_GoName (h ! field))))"

definition addRelation :: "Field list \<Rightarrow> Relation \<Rightarrow> Table \<Rightarrow> error + Table" where
  "addRelation h rel t =
     (case t_Relations t (f_GoName (h ! r_Field rel)) of
        Some old \<Rightarrow> Inl (ErrAlreadyHas (f_GoName (h ! r_Field rel)))
      | None \<Rightarrow> Inr (t\<lparr> t_Relations := (t_Relations t)(f_GoName (h ! r_Field rel) \<mapsto> rel) \<rparr>))"

definition initRelation :: "env \<Rightarrow> Field list \<Rightarrow> Tables \<Rightarrow> Table \<Rightarrow> addr \<Rightarrow> string \<Rightarrow> error + Table" where
  "initRelation e h tabs t field rel =
     (if rel = ''has-one'' then
        (case hasOneRelation e h tabs t field of
           Inl err \<Rightarrow> Inl err | Inr r \<Rightarrow> addRelation h r t)
      else if rel = ''belongs-to'' then
        (case belongsToRelation e h tabs t field of
           Inl err \<Rightarrow> Inl err | Inr r \<Rightarrow> addRelation h r t)
      else if rel = ''has-many'' then
        (case hasManyRelation e h tabs t field of
           Inl err \<Rightarrow> Inl err | Inr r \<Rightarrow> addRelation h r t)
      else Inl (ErrUnknownRelation rel (f_GoName (h ! field))))"

text \<open>\<^verbatim>\<open>tryRelation\<close>: whether the field is a relation, and the table with the relation
  added. The registry sees the table in its current state.\<close>

definition tryRelation :: "env \<Rightarrow> Field list \<Rightarrow> Tables \<Rightarrow> Table \<Rightarrow> addr \<Rightarrow> error + (bool \<times> Table)" where
  "tryRelation e h reg t field =
     (case Option_of (f_Tag (h ! field)) ''rel'' of
        Some rel \<Rightarrow>
          (case initRelation e h (tables_with reg t) t field rel of
             Inl err \<Rightarrow> Inl err | Inr t1 \<Rightarrow> Inr (True, t1))
      | None \<Rightarrow>
          (if HasOption (f_Tag (h ! field)) ''m2m'' then
             (case m2mRelation e h (tables_with reg t) t field of
                Inl err \<Rightarrow> Inl err
              | Inr r \<Rightarrow>
                  (case addRelation h r t of
                     Inl err \<Rightarrow> Inl err | Inr t1 \<Rightarrow> Inr (True, t1)))
           else Inr (False, t)))"

section \<open>Phase 2: inlining and relations\<close>

text \<open>
  \<^verbatim>\<open>inlineFields\<close> recurses through the tables of struct-typed fields. The first
  argument bounds the depth of the recursion and \<open>None\<close> is a run that did not end
  within it; that a bound always exists is a theorem below, not part of the definition.
  The path is the set of visited types, a Go map that the calls share: it is passed in
  and handed back. \<^verbatim>\<open>nil\<close> is \<open>None\<close>. The second function is the loop over
  \<^verbatim>\<open>joinTable.allFields\<close>.
\<close>

definition inline_clone :: "env \<Rightarrow> Field \<Rightarrow> Field \<Rightarrow> Field" where
  "inline_clone e strct f =
     f\<lparr> f_GoName := f_GoName strct @ ''_'' @ f_GoName f,
        f_Name := f_Name strct @ ''__'' @ f_Name f,
        f_SQLName := e_quoteIdent e (f_Name strct @ ''__'' @ f_Name f),
        f_Index := appendNew (f_Index strct) (f_Index f) \<rparr>"

definition register_inlined :: "addr \<Rightarrow> cstate \<Rightarrow> cstate" where
  "register_inlined f s =
     (if t_FieldMap (tbl s) (f_Name (heap s ! f)) = None
      then s\<lparr> tbl := (tbl s)\<lparr> t_FieldMap := (t_FieldMap (tbl s))(f_Name (heap s ! f) \<mapsto> f) \<rparr> \<rparr>
      else s)"

fun inlineFields ::
  "nat \<Rightarrow> env \<Rightarrow> Tables \<Rightarrow> addr \<Rightarrow> gotype list option \<Rightarrow> cstate
     \<Rightarrow> (error + (gotype list \<times> cstate)) option"
and inlineFields_loop ::
  "nat \<Rightarrow> env \<Rightarrow> Tables \<Rightarrow> addr \<Rightarrow> addr list \<Rightarrow> gotype list \<Rightarrow> cstate
     \<Rightarrow> (error + (gotype list \<times> cstate)) option"
where
  "inlineFields 0 e reg strct path0 s = None"
| "inlineFields (Suc n) e reg strct path0 s =
     (let path = (case path0 of None \<Rightarrow> [t_Type (tbl s)] | Some p \<Rightarrow> p) in
      if f_Type (heap s ! strct) \<in> set path then Some (Inr (path, s))
      else
        (case Tables_Ref (tables_with reg (tbl s)) (f_Type (heap s ! strct)) of
           Inl err \<Rightarrow> Some (Inl err)
         | Inr joinTable \<Rightarrow>
             inlineFields_loop n e reg strct (t_allFields joinTable)
               (f_Type (heap s ! strct) # path) s))"
| "inlineFields_loop n e reg strct [] path s = Some (Inr (path, s))"
| "inlineFields_loop n e reg strct (a # as) path s =
     (let (f, s1) = alloc (inline_clone e (heap s ! strct) (heap s ! a)) s;
          s2 = register_inlined f s1
      in if Kind_of (f_Type (heap s2 ! f)) \<noteq> KStruct
         then inlineFields_loop n e reg strct as path s2
         else if f_Type (heap s2 ! f) \<notin> set path
         then (case inlineFields n e reg f (Some path) s2 of
                 None \<Rightarrow> None
               | Some (Inl err) \<Rightarrow> Some (Inl err)
               | Some (Inr (path2, s3)) \<Rightarrow> inlineFields_loop n e reg strct as path2 s3)
         else inlineFields_loop n e reg strct as path s2)"

fun initInlines_loop ::
  "nat \<Rightarrow> env \<Rightarrow> Tables \<Rightarrow> addr list \<Rightarrow> cstate \<Rightarrow> (error + cstate) option"
where
  "initInlines_loop fuel e reg [] s = Some (Inr s)"
| "initInlines_loop fuel e reg (f # fs) s =
     (if Kind_of (f_Type (heap s ! f)) = KStruct then
        (case inlineFields fuel e reg f None s of
           None \<Rightarrow> None
         | Some (Inl err) \<Rightarrow> Some (Inl err)
         | Some (Inr (path, s1)) \<Rightarrow> initInlines_loop fuel e reg fs s1)
      else initInlines_loop fuel e reg fs s)"

definition initInlines :: "nat \<Rightarrow> env \<Rightarrow> Tables \<Rightarrow> cstate \<Rightarrow> (error + cstate) option" where
  "initInlines fuel e reg s = initInlines_loop fuel e reg (t_skippedFields (tbl s)) s"

text \<open>
  The loop of \<^verbatim>\<open>initRelations\<close> runs on an index into \<^verbatim>\<open>t.Fields\<close>, a slice it shortens
  as it goes. The first argument bounds the number of iterations, the second is the
  depth bound handed to \<^verbatim>\<open>inlineFields\<close>; \<open>None\<close> is a run that did not end within them.
\<close>

fun initRelations_loop ::
  "nat \<Rightarrow> nat \<Rightarrow> env \<Rightarrow> Tables \<Rightarrow> nat \<Rightarrow> cstate \<Rightarrow> (error + cstate) option"
where
  "initRelations_loop 0 fuel e reg i s =
     (if i < length (t_Fields (tbl s)) then None else Some (Inr s))"
| "initRelations_loop (Suc k) fuel e reg i s =
     (if i < length (t_Fields (tbl s)) then
        (let f = t_Fields (tbl s) ! i in
         case tryRelation e (heap s) reg (tbl s) f of
           Inl err \<Rightarrow> Some (Inl err)
         | Inr (isRel, t1) \<Rightarrow>
             (let s1 = (if isRel
                        then s\<lparr> tbl := t1\<lparr> t_Fields := removeField (t_Fields t1) f,
                                          t_DataFields := removeField (t_DataFields t1) f \<rparr> \<rparr>
                        else s\<lparr> tbl := t1 \<rparr>);
                  i1 = (if isRel then i else i + 1)
              in if Kind_of (f_Type (heap s1 ! f)) = KStruct then
                   (case inlineFields fuel e reg f None s1 of
                      None \<Rightarrow> None
                    | Some (Inl err) \<Rightarrow> Some (Inl err)
                    | Some (Inr (path, s2)) \<Rightarrow> initRelations_loop k fuel e reg i1 s2)
                 else initRelations_loop k fuel e reg i1 s1))
      else Some (Inr s))"

definition initRelations :: "nat \<Rightarrow> nat \<Rightarrow> env \<Rightarrow> Tables \<Rightarrow> cstate \<Rightarrow> (error + cstate) option" where
  "initRelations steps fuel e reg s = initRelations_loop steps fuel e reg 0 s"

definition init2 :: "nat \<Rightarrow> nat \<Rightarrow> env \<Rightarrow> Tables \<Rightarrow> cstate \<Rightarrow> (error + cstate) option" where
  "init2 steps fuel e reg s =
     (case initInlines fuel e reg s of
        None \<Rightarrow> None
      | Some (Inl err) \<Rightarrow> Some (Inl err)
      | Some (Inr s1) \<Rightarrow>
          (case initRelations steps fuel e reg s1 of
             None \<Rightarrow> None
           | Some (Inl err) \<Rightarrow> Some (Inl err)
           | Some (Inr s2) \<Rightarrow> Some (Inr (s2\<lparr> tbl := (tbl s2)\<lparr> t_skippedFields := [] \<rparr> \<rparr>))))"

section \<open>The soft-delete closures\<close>

text \<open>
  What a closure of \<^verbatim>\<open>softDeleteFieldUpdater\<close> does to the field value \<^verbatim>\<open>fv\<close> it is
  called on. \<^verbatim>\<open>fv\<close> has the declared type of the struct field; the closure overwrites
  it, so only that type and the clock matter. The first four closures assert the type
  of \<^verbatim>\<open>fv.Addr().Interface()\<close>, which panics unless \<^verbatim>\<open>fv\<close> has exactly the type named;
  the two pointer closures call \<^verbatim>\<open>fv.Set\<close> with a pointer, which panics unless \<^verbatim>\<open>fv\<close>
  has that pointer type. The time is \<^verbatim>\<open>time.Now()\<close> in nanoseconds since the Unix epoch;
  \<^verbatim>\<open>sql.NullTime\<close> and \<^verbatim>\<open>sql.NullInt64\<close> are built without \<^verbatim>\<open>Valid\<close>, which stays false.
  The fallback calls \<^verbatim>\<open>field.ScanWithCheck\<close>, which is outside the file and a parameter.
\<close>

datatype goval =
    VTime int | VNullTime int bool | VNullInt64 int bool | VInt64 int
  | VPtr "goval option" | VOther

definition UpdateSoftDeleteField ::
  "(int \<Rightarrow> gotype \<Rightarrow> error + goval) \<Rightarrow> SoftDeleteUpdater \<Rightarrow> int \<Rightarrow> gotype \<Rightarrow> error + goval"
where
  "UpdateSoftDeleteField scanWithCheck u now fvType =
     (case u of
        SetTime \<Rightarrow> if fvType = TTime then Inr (VTime now) else Inl ErrTypeAssertion
      | SetNullTime \<Rightarrow>
          if fvType = TNullTime then Inr (VNullTime now False) else Inl ErrTypeAssertion
      | SetNullInt64 \<Rightarrow>
          if fvType = TNullInt64 then Inr (VNullInt64 now False) else Inl ErrTypeAssertion
      | SetInt64 \<Rightarrow> if fvType = TInt64 then Inr (VInt64 now) else Inl ErrTypeAssertion
      | SetPtrTime \<Rightarrow>
          if fvType = TPtr TTime then Inr (VPtr (Some (VTime now))) else Inl ErrTypeAssertion
      | SetPtrInt64 \<Rightarrow>
          if fvType = TPtr TInt64 then Inr (VPtr (Some (VInt64 now))) else Inl ErrTypeAssertion
      | SetFallback \<Rightarrow> scanWithCheck now fvType)"

section \<open>What the registry does with a type, and reading a result\<close>

text \<open>
  Modelled from the spec: the registry builds the table of a type it has not seen "via
  phase 1 (field discovery) then phase 2": \<open>phase1\<close> is \<^verbatim>\<open>newTable\<close> followed by \<^verbatim>\<open>init1\<close>
  on a given heap. \<open>scan_fields\<close> is the walk \<^verbatim>\<open>initFields\<close> starts with, up to the
  primary-key fallback. \<open>is_ok\<close> and \<open>the_state\<close> read a result.
\<close>

definition is_ok :: "(error + 'a) option \<Rightarrow> bool" where
  "is_ok r = (case r of Some (Inr s) \<Rightarrow> True | _ \<Rightarrow> False)"

definition the_state :: "(error + cstate) option \<Rightarrow> cstate" where
  "the_state r = (case r of Some (Inr s) \<Rightarrow> s | _ \<Rightarrow> \<lparr> heap = [], tbl = new_Table \<rparr>)"

definition scan_fields :: "nat \<Rightarrow> env \<Rightarrow> Tables \<Rightarrow> Field list \<Rightarrow> gotype \<Rightarrow> (error + cstate) option" where
  "scan_fields fuel e reg h typ =
     addFields fuel e reg (struct_fields e typ) [] \<lparr> heap = h, tbl = newTable e typ \<rparr>"

definition phase1 :: "nat \<Rightarrow> env \<Rightarrow> Tables \<Rightarrow> Field list \<Rightarrow> gotype \<Rightarrow> (error + cstate) option" where
  "phase1 fuel e reg h typ = init1 fuel e reg \<lparr> heap = h, tbl = newTable e typ \<rparr>"

text \<open>
  The convention of the spec for a relation without an explicit join: "look for
  \<^verbatim>\<open><prefix>_<pk>\<close>, else bare \<^verbatim>\<open><pk>\<close>". This definition follows the spec's words; the
  theorems compare it with the loops of the code.
\<close>

definition convention_column :: "Table \<Rightarrow> string \<Rightarrow> string \<Rightarrow> addr option" where
  "convention_column searched fkPrefix pk =
     (case fieldWithLock searched (fkPrefix @ pk) of
        Some fk \<Rightarrow> Some fk
      | None \<Rightarrow> fieldWithLock searched pk)"

section \<open>Example programs\<close>

text \<open>
  Modelled from the spec: the Naming Resolver ("deterministic conversions from
  identifier-style names to SQL-style names") is outside the file. The examples use the
  snake-case conversion: an upper-case letter is lowered, and it gets an underscore in
  front when it is neither first nor last and a neighbour is lower-case.
\<close>

definition uppers :: string where "uppers = ''ABCDEFGHIJKLMNOPQRSTUVWXYZ''"
definition lowers :: string where "lowers = ''abcdefghijklmnopqrstuvwxyz''"

definition IsUpper :: "char \<Rightarrow> bool" where "IsUpper c = (c \<in> set uppers)"
definition IsLower :: "char \<Rightarrow> bool" where "IsLower c = (c \<in> set lowers)"

definition ToLower :: "char \<Rightarrow> char" where
  "ToLower c = (case map_of (zip uppers lowers) c of Some l \<Rightarrow> l | None \<Rightarrow> c)"

definition ToUpper :: "char \<Rightarrow> char" where
  "ToUpper c = (case map_of (zip lowers uppers) c of Some u \<Rightarrow> u | None \<Rightarrow> c)"

fun Underscore_from :: "char option \<Rightarrow> string \<Rightarrow> string" where
  "Underscore_from prev [] = []"
| "Underscore_from prev (c # cs) =
     (if IsUpper c then
        (if (case prev of
               None \<Rightarrow> False
             | Some p \<Rightarrow> (case cs of [] \<Rightarrow> False | n # ns \<Rightarrow> IsLower p \<or> IsLower n))
         then CHR ''_'' # ToLower c # Underscore_from (Some c) cs
         else ToLower c # Underscore_from (Some c) cs)
      else c # Underscore_from (Some c) cs)"

definition Underscore :: "string \<Rightarrow> string" where
  "Underscore s = Underscore_from None s"

definition ToExported :: "string \<Rightarrow> string" where
  "ToExported s = (case s of [] \<Rightarrow> [] | c # cs \<Rightarrow> (if IsLower c then ToUpper c # cs else s))"

text \<open>An environment for the examples: identifiers are quoted with double quotes, the
  inflector appends \<^verbatim>\<open>s\<close>, no SQL types are detected and no type implements a hook.\<close>

definition example_env :: "(gotype \<Rightarrow> StructField list) \<Rightarrow> env" where
  "example_env types =
     \<lparr> e_quoteIdent = (\<lambda>s. CHR 0x22 # s @ [CHR 0x22]),
       e_Detect = (\<lambda>t. []),
       e_OnField = (\<lambda>f. []),
       e_Underscore = Underscore,
       e_ToExported = ToExported,
       e_tableNameInflector = (\<lambda>s. s @ ''s''),
       e_Implements = (\<lambda>t h. False),
       e_Fields = types \<rparr>"

text \<open>A declared field with its raw tag and the parse of it; an embedded field.\<close>

definition declared :: "string \<Rightarrow> gotype \<Rightarrow> string \<Rightarrow> string \<Rightarrow> (string \<times> string) list \<Rightarrow> StructField" where
  "declared name typ raw tagName opts =
     \<lparr> sf_Name = name, sf_PkgPath = [], sf_Type = typ, sf_RawTag = raw,
       sf_Tag = \<lparr> tag_Name = tagName, tag_Options = opts \<rparr>,
       sf_Index = [], sf_Anonymous = False \<rparr>"

definition embedded :: "string \<Rightarrow> gotype \<Rightarrow> StructField" where
  "embedded name typ =
     \<lparr> sf_Name = name, sf_PkgPath = [], sf_Type = typ, sf_RawTag = [],
       sf_Tag = \<lparr> tag_Name = [], tag_Options = [] \<rparr>,
       sf_Index = [], sf_Anonymous = True \<rparr>"

definition pk_int :: "string \<Rightarrow> StructField" where
  "pk_int name = declared name TInt '',pk'' [] [(''pk'', [])]"

text \<open>
  The record types of the examples, as Go would declare them:
  \<^verbatim>\<open>Author{ID int `bun:",pk"`; Name string}\<close>,
  \<^verbatim>\<open>Book{ID int `bun:",pk"`; AuthorID int; Author *Author `bun:"rel:belongs-to"`}\<close>,
  \<^verbatim>\<open>Review{Code string `bun:",pk"`; Book *Book `bun:"rel:has-one"`}\<close>,
  \<^verbatim>\<open>Reader{ID int; Name string}\<close>,
  \<^verbatim>\<open>Tag{ID int `bun:",pk"`}\<close>,
  \<^verbatim>\<open>Post{ID int `bun:",pk"`; Rev int `bun:",pk"`; Tags []Tag `bun:"m2m:post_tags"`}\<close>,
  \<^verbatim>\<open>PostTag{PostID int; PostRev int; TagID int; Post *Post; Tag *Tag}\<close>,
  \<^verbatim>\<open>Comment{ID int `bun:",pk"`; TrackableID int; TrackableType string}\<close>,
  \<^verbatim>\<open>Article{ID int `bun:",pk"`; Comments []Comment
     `bun:"rel:has-many,join:type=trackable_type,polymorphic"`}\<close>,
  \<^verbatim>\<open>Left{X int}\<close>, \<^verbatim>\<open>Right{X int}\<close>, \<^verbatim>\<open>Pair{Left; Right}\<close>,
  \<^verbatim>\<open>Husband{ID int `bun:",pk"`; Wife *Wife `bun:"-"`}\<close>,
  \<^verbatim>\<open>Wife{ID int `bun:",pk"`; Husband *Husband `bun:"-"`}\<close> and
  \<^verbatim>\<open>Account{ID int `bun:",pk"`; DeletedAt *time.Time `bun:",soft_delete"`}\<close>.
\<close>

definition example_types :: "gotype \<Rightarrow> StructField list" where
  "example_types typ =
     (if typ = TStruct ''Author'' then
        [pk_int ''ID'', declared ''Name'' TString [] [] []]
      else if typ = TStruct ''Book'' then
        [pk_int ''ID'', declared ''AuthorID'' TInt [] [] [],
         declared ''Author'' (TPtr (TStruct ''Author'')) ''rel:belongs-to'' []
           [(''rel'', ''belongs-to'')]]
      else if typ = TStruct ''Review'' then
        [declared ''Code'' TString '',pk'' [] [(''pk'', [])],
         declared ''Book'' (TPtr (TStruct ''Book'')) ''rel:has-one'' [] [(''rel'', ''has-one'')]]
      else if typ = TStruct ''Reader'' then
        [declared ''ID'' TInt [] [] [], declared ''Name'' TString [] [] []]
      else if typ = TStruct ''Tag'' then
        [pk_int ''ID'']
      else if typ = TStruct ''Post'' then
        [pk_int ''ID'', pk_int ''Rev'',
         declared ''Tags'' (TSlice (TStruct ''Tag'')) ''m2m:post_tags'' []
           [(''m2m'', ''post_tags'')]]
      else if typ = TStruct ''PostTag'' then
        [declared ''PostID'' TInt [] [] [], declared ''PostRev'' TInt [] [] [],
         declared ''TagID'' TInt [] [] [],
         declared ''Post'' (TPtr (TStruct ''Post'')) [] [] [],
         declared ''Tag'' (TPtr (TStruct ''Tag'')) [] [] []]
      else if typ = TStruct ''Comment'' then
        [pk_int ''ID'', declared ''TrackableID'' TInt [] [] [],
         declared ''TrackableType'' TString [] [] []]
      else if typ = TStruct ''Article'' then
        [pk_int ''ID'',
         declared ''Comments'' (TSlice (TStruct ''Comment''))
           ''rel:has-many,join:type=trackable_type,polymorphic'' []
           [(''rel'', ''has-many''), (''join'', ''type=trackable_type''), (''polymorphic'', [])]]
      else if typ = TStruct ''Left'' then [declared ''X'' TInt [] [] []]
      else if typ = TStruct ''Right'' then [declared ''X'' TInt [] [] []]
      else if typ = TStruct ''Pair'' then
        [embedded ''Left'' (TStruct ''Left''), embedded ''Right'' (TStruct ''Right'')]
      else if typ = TStruct ''Husband'' then
        [pk_int ''ID'', declared ''Wife'' (TPtr (TStruct ''Wife'')) ''-'' ''-'' []]
      else if typ = TStruct ''Wife'' then
        [pk_int ''ID'', declared ''Husband'' (TPtr (TStruct ''Husband'')) ''-'' ''-'' []]
      else if typ = TStruct ''Account'' then
        [pk_int ''ID'',
         declared ''DeletedAt'' (TPtr TTime) '',soft_delete'' [] [(''soft_delete'', [])]]
      else [])"

definition ex :: env where
  "ex = example_env example_types"

text \<open>
  The library: Author is built first, then Book on the same heap with Author in the
  registry, through both phases; Review is built through phase 1 with both registered.
\<close>

definition library_author :: "(error + cstate) option" where
  "library_author = phase1 2 ex [] [] (TStruct ''Author'')"

definition library_reg :: Tables where
  "library_reg = [(TStruct ''Author'', tbl (the_state library_author))]"

definition library_book1 :: "(error + cstate) option" where
  "library_book1 = phase1 2 ex library_reg (heap (the_state library_author)) (TStruct ''Book'')"

definition library_book :: "(error + cstate) option" where
  "library_book = init2 3 2 ex library_reg (the_state library_book1)"

definition library_heap :: "Field list" where
  "library_heap = heap (the_state library_book1)"

definition library_table :: Table where
  "library_table = tbl (the_state library_book1)"

definition library_tabs :: Tables where
  "library_tabs = tables_with library_reg library_table"

definition library_reg2 :: Tables where
  "library_reg2 = (TStruct ''Book'', library_table) # library_reg"

definition library_review1 :: "(error + cstate) option" where
  "library_review1 = phase1 2 ex library_reg2 library_heap (TStruct ''Review'')"

definition review_heap :: "Field list" where
  "review_heap = heap (the_state library_review1)"

definition review_table :: Table where
  "review_table = tbl (the_state library_review1)"

definition review_tabs :: Tables where
  "review_tabs = tables_with library_reg2 review_table"

text \<open>The relations the library resolves on field \<^verbatim>\<open>Author\<close> of Book (address 4):
  as declared, and as \<^verbatim>\<open>hasOneRelation\<close> resolves the same field.\<close>

definition library_belongs :: Relation where
  "library_belongs =
     \<lparr> r_Type = BelongsToRelation, r_Field = 4, r_JoinTable = TStruct ''Author'',
       r_BaseFields = [2], r_JoinFields = [0],
       r_PolymorphicField = None, r_PolymorphicValue = [],
       r_M2MTable = None, r_M2MBaseFields = [], r_M2MJoinFields = [] \<rparr>"

definition library_hasone :: Relation where
  "library_hasone =
     \<lparr> r_Type = HasOneRelation, r_Field = 4, r_JoinTable = TStruct ''Author'',
       r_BaseFields = [3], r_JoinFields = [0],
       r_PolymorphicField = None, r_PolymorphicValue = [],
       r_M2MTable = None, r_M2MBaseFields = [], r_M2MJoinFields = [] \<rparr>"

text \<open>
  What a build is observed by: for every Field on the heap its Go name, column, type,
  path, flags, tag options and declared type; for the table its names and lists, and
  the fields and relations it holds under the names asked for.
\<close>

definition field_view ::
  "Field \<Rightarrow> string \<times> string \<times> gotype \<times> nat list \<times> bool \<times> bool \<times> (string \<times> string) list \<times> gotype"
where
  "field_view f =
     (f_GoName f, f_Name f, f_Type f, f_Index f, f_IsPK f, f_AutoIncrement f,
      tag_Options (f_Tag f), sf_Type (f_StructField f))"

definition table_view ::
  "Table \<Rightarrow> string list \<Rightarrow> string list \<Rightarrow>
     gotype \<times> string \<times> string \<times> string \<times> addr list \<times> addr list \<times> addr list \<times> addr list \<times>
     addr list \<times> addr option list \<times> Relation option list \<times> SoftDeleteUpdater option"
where
  "table_view t cols rels =
     (t_Type t, t_TypeName t, t_ModelName t, t_Name t, t_Fields t, t_PKs t,
      t_DataFields t, t_allFields t, t_skippedFields t,
      map (t_FieldMap t) cols, map (t_Relations t) rels, t_UpdateSoftDeleteField t)"

definition state_view ::
  "(error + cstate) option \<Rightarrow> string list \<Rightarrow> string list \<Rightarrow> _ option"
where
  "state_view r cols rels =
     (case r of
        Some (Inr s) \<Rightarrow> Some (map field_view (heap s), table_view (tbl s) cols rels)
      | _ \<Rightarrow> None)"

text \<open>The blog: Tag, the junction PostTag and Post through phase 1 on one heap; the
  registry holds Tag and PostTag. Field \<^verbatim>\<open>Tags\<close> of Post is at address 8.\<close>

definition blog_tag :: "(error + cstate) option" where
  "blog_tag = phase1 2 ex [] [] (TStruct ''Tag'')"

definition blog_link :: "(error + cstate) option" where
  "blog_link = phase1 2 ex [] (heap (the_state blog_tag)) (TStruct ''PostTag'')"

definition blog_post :: "(error + cstate) option" where
  "blog_post = phase1 2 ex [] (heap (the_state blog_link)) (TStruct ''Post'')"

definition blog_heap :: "Field list" where
  "blog_heap = heap (the_state blog_post)"

definition blog_table :: Table where
  "blog_table = tbl (the_state blog_post)"

definition blog_tabs :: Tables where
  "blog_tabs =
     tables_with [(TStruct ''Tag'', tbl (the_state blog_tag)),
                  (TStruct ''PostTag'', tbl (the_state blog_link))] blog_table"

definition blog_m2m :: Relation where
  "blog_m2m =
     \<lparr> r_Type = ManyToManyRelation, r_Field = 8, r_JoinTable = TStruct ''Tag'',
       r_BaseFields = [6, 7], r_JoinFields = [0],
       r_PolymorphicField = None, r_PolymorphicValue = [],
       r_M2MTable = Some (TStruct ''PostTag''),
       r_M2MBaseFields = [1, 2], r_M2MJoinFields = [3] \<rparr>"

text \<open>The news: Comment and Article through phase 1; field \<^verbatim>\<open>Comments\<close> of Article is
  at address 4, and its explicit join names the polymorphic column only.\<close>

definition news_comment :: "(error + cstate) option" where
  "news_comment = phase1 2 ex [] [] (TStruct ''Comment'')"

definition news_article :: "(error + cstate) option" where
  "news_article = phase1 2 ex [] (heap (the_state news_comment)) (TStruct ''Article'')"

definition news_heap :: "Field list" where
  "news_heap = heap (the_state news_article)"

definition news_table :: Table where
  "news_table = tbl (the_state news_article)"

definition news_tabs :: Tables where
  "news_tabs = tables_with [(TStruct ''Comment'', tbl (the_state news_comment))] news_table"

definition news_hasmany :: Relation where
  "news_hasmany =
     \<lparr> r_Type = HasManyRelation, r_Field = 4, r_JoinTable = TStruct ''Comment'',
       r_BaseFields = [], r_JoinFields = [],
       r_PolymorphicField = Some 2, r_PolymorphicValue = ''article'',
       r_M2MTable = None, r_M2MBaseFields = [], r_M2MJoinFields = [] \<rparr>"

text \<open>The pair: the walk of \<^verbatim>\<open>addFields\<close> over Pair after its first embedded field, and
  after both. \<open>right_X\<close> is field \<^verbatim>\<open>X\<close> as \<^verbatim>\<open>reflect\<close> gives it for Right.\<close>

definition pair_first :: "(error + cstate) option" where
  "pair_first =
     addFields 2 ex [] (take 1 (struct_fields ex (TStruct ''Pair''))) []
       \<lparr> heap = [], tbl = newTable ex (TStruct ''Pair'') \<rparr>"

definition pair_both :: "(error + cstate) option" where
  "pair_both = scan_fields 2 ex [] [] (TStruct ''Pair'')"

definition right_X :: StructField where
  "right_X = hd (struct_fields ex (TStruct ''Right''))"

text \<open>The couple: Wife and Husband through phase 1, each with a skipped field of the
  other's type. Field \<^verbatim>\<open>Wife\<close> of Husband is at address 3.\<close>

definition couple_wife :: "(error + cstate) option" where
  "couple_wife = phase1 2 ex [] [] (TStruct ''Wife'')"

definition couple_husband :: "(error + cstate) option" where
  "couple_husband = phase1 2 ex [] (heap (the_state couple_wife)) (TStruct ''Husband'')"

definition couple_reg :: Tables where
  "couple_reg = [(TStruct ''Wife'', tbl (the_state couple_wife))]"

definition inlined ::
  "(error + (gotype list \<times> cstate)) option \<Rightarrow> (gotype list \<times> string list) option"
where
  "inlined r =
     (case r of
        Some (Inr (path, s)) \<Rightarrow> Some (path, map f_Name (heap s))
      | _ \<Rightarrow> None)"

definition account1 :: "(error + cstate) option" where
  "account1 = phase1 2 ex [] [] (TStruct ''Account'')"

section \<open>Properties\<close>

subsection \<open>Hook flags\<close>

lemma Flag_Has_bit:
  assumes "n < 64"
  shows "Flag_Has fl (push_bit n 1) = bit fl n"
proof
  assume "Flag_Has fl (push_bit n 1)"
  then have "bit (fl AND push_bit n 1) n = bit (push_bit n 1 :: 64 word) n"
    by (simp add: Flag_Has_def)
  with assms show "bit fl n"
    by (simp add: bit_and_iff bit_exp_iff)
next
  assume "bit fl n"
  then have "bit (fl AND push_bit n 1) m = bit (push_bit n 1 :: 64 word) m" for m
    by (auto simp: bit_and_iff bit_exp_iff)
  then show "Flag_Has fl (push_bit n 1)"
    unfolding Flag_Has_def by (rule bit_eqI)
qed

lemma set_hook_flags_bit:
  "bit (set_hook_flags e typ hs fl) n \<longleftrightarrow>
     bit fl n \<or> (\<exists>x \<in> set hs. e_Implements e typ (fst x) \<and> bit (snd x) n)"
proof (induction hs arbitrary: fl)
  case Nil
  show ?case by simp
next
  case (Cons x hs)
  obtain h f where x: "x = (h, f)" by (cases x)
  show ?case
    unfolding x by (auto simp: Cons.IH Flag_Set_def bit_or_iff)
qed

lemma hooks_bit4:
  "bit (set_hook_flags e typ hooks 0) 4 = e_Implements e typ afterInsertHookType"
  by (subst set_hook_flags_bit)
     (simp add: hooks_def beforeScanHookFlag_def afterScanHookFlag_def
        afterSelectHookFlag_def beforeInsertHookFlag_def afterInsertHookFlag_def
        beforeUpdateHookFlag_def afterUpdateHookFlag_def beforeDeleteHookFlag_def
        afterDeleteHookFlag_def bit_exp_iff)

lemma Has_afterInsert: "Flag_Has fl afterInsertHookFlag = bit fl 4"
  unfolding afterInsertHookFlag_def by (rule Flag_Has_bit) simp

text \<open>
  C10. On every table \<^verbatim>\<open>HasBeforeInsertHook\<close> and \<^verbatim>\<open>HasAfterInsertHook\<close> return the same
  boolean, since both test the after-insert flag; on a table that \<^verbatim>\<open>newTable\<close> made,
  \<^verbatim>\<open>HasBeforeInsertHook\<close> says whether the pointer type implements the after-insert
  hook, whatever it does about the before-insert hook.
\<close>

theorem HasBeforeInsertHook_is_after:
  "HasBeforeInsertHook t = HasAfterInsertHook t \<and>
   HasBeforeInsertHook (newTable e typ) = e_Implements e (TPtr typ) afterInsertHookType"
proof -
  have "t_flags (newTable e typ) = set_hook_flags e (TPtr typ) hooks 0"
    by (simp add: newTable_def Let_def setName_def new_Table_def del: set_hook_flags.simps)
  then show ?thesis
    by (simp add: HasBeforeInsertHook_def HasAfterInsertHook_def Has_afterInsert hooks_bit4
         del: set_hook_flags.simps)
qed

end
